theory Spec2Isabelle
  imports Main "HOL-Library.AList"
begin

section \<open>JavaScript values and the runtime the component relies on\<close>

text \<open>
  The component \<^verbatim>\<open>jsonToTable.js\<close> works on values produced by \<^verbatim>\<open>JSON.parse\<close>.
  A JavaScript value is modelled by the datatype below; the type parameter \<open>'n\<close> is the
  type of double-precision numbers, which is left open.  An object is the list of its own
  properties in insertion order; a property is looked up with \<open>map_of\<close>.
\<close>

datatype 'n val =
    Undefined
  | Null
  | Bool bool
  | Number 'n
  | String string
  | Array "'n val list"
  | Object "(string \<times> 'n val) list"

text \<open>The three kinds of exception that can reach the \<^verbatim>\<open>catch\<close> block, with their message.\<close>

datatype error = SyntaxError string | TypeError string | Error string

fun message :: "error \<Rightarrow> string" where
  "message (SyntaxError m) = m"
| "message (TypeError m) = m"
| "message (Error m) = m"

text \<open>
  What the language runtime supplies and the source file does not define:
  \<^item> \<open>JSON_parse\<close>: \<^verbatim>\<open>JSON.parse\<close> on a string, \<open>Inl\<close> being the \<^verbatim>\<open>SyntaxError\<close> it throws;
  \<^item> \<open>Number_falsy\<close>: whether a number is \<open>+0\<close>, \<open>-0\<close> or \<open>NaN\<close>;
  \<^item> \<open>Number_ToString\<close>: the string a number has inside a template literal;
  \<^item> \<open>Number_of_nat\<close>: the number that stands for a natural number (an array index plus one).
\<close>

record 'n runtime =
  JSON_parse :: "string \<Rightarrow> error + 'n val"
  Number_falsy :: "'n \<Rightarrow> bool"
  Number_ToString :: "'n \<Rightarrow> string"
  Number_of_nat :: "nat \<Rightarrow> 'n"

text \<open>Truthiness, as tested by \<^verbatim>\<open>||\<close>, \<^verbatim>\<open>? :\<close> and \<^verbatim>\<open>if\<close>.\<close>

fun truthy :: "'n runtime \<Rightarrow> 'n val \<Rightarrow> bool" where
  "truthy rt Undefined = False"
| "truthy rt Null = False"
| "truthy rt (Bool b) = b"
| "truthy rt (Number n) = (\<not> Number_falsy rt n)"
| "truthy rt (String s) = (s \<noteq> [])"
| "truthy rt (Array xs) = True"
| "truthy rt (Object ps) = True"

text \<open>\<^verbatim>\<open>x || null\<close>\<close>

definition or_null :: "'n runtime \<Rightarrow> 'n val \<Rightarrow> 'n val" where
  "or_null rt x = (if truthy rt x then x else Null)"

text \<open>
  \<^verbatim>\<open>row[key]\<close>.  Reading a property of \<^verbatim>\<open>null\<close> or \<^verbatim>\<open>undefined\<close> throws a \<^verbatim>\<open>TypeError\<close>.
  On an object the own property is returned, and \<^verbatim>\<open>undefined\<close> when there is none; on
  every other value the result is \<^verbatim>\<open>undefined\<close>.  This is exact for the keys the component
  reads (the \<open>jsonKey\<close>s of \<open>columnMapping\<close>), none of which is a property of a built-in
  prototype, an array index or \<^verbatim>\<open>length\<close>.  The messages are worded as V8 words them.
\<close>

fun get_prop :: "'n val \<Rightarrow> string \<Rightarrow> error + 'n val" where
  "get_prop Undefined key =
     Inl (TypeError (''Cannot read properties of undefined (reading '' @ [CHR 0x27] @ key @ [CHR 0x27] @ '')''))"
| "get_prop Null key =
     Inl (TypeError (''Cannot read properties of null (reading '' @ [CHR 0x27] @ key @ [CHR 0x27] @ '')''))"
| "get_prop (Object ps) key = Inr (case map_of ps key of None \<Rightarrow> Undefined | Some v \<Rightarrow> v)"
| "get_prop v key = Inr Undefined"

text \<open>
  The conversion to a string done by a template literal \<^verbatim>\<open>`/${x}`\<close>.  An array is joined
  with commas, \<^verbatim>\<open>null\<close> and \<^verbatim>\<open>undefined\<close> elements giving the empty string.  A plain
  object gives \<^verbatim>\<open>[object Object]\<close>, unless it has an own property \<^verbatim>\<open>toString\<close>: a value
  decoded from JSON is never callable, so the conversion then finds no usable method and
  throws a \<^verbatim>\<open>TypeError\<close>.
\<close>

fun ToString :: "'n runtime \<Rightarrow> 'n val \<Rightarrow> error + string"
  and join :: "'n runtime \<Rightarrow> 'n val list \<Rightarrow> error + string" where
  "ToString rt Undefined = Inr ''undefined''"
| "ToString rt Null = Inr ''null''"
| "ToString rt (Bool b) = Inr (if b then ''true'' else ''false'')"
| "ToString rt (Number n) = Inr (Number_ToString rt n)"
| "ToString rt (String s) = Inr s"
| "ToString rt (Array xs) = join rt xs"
| "ToString rt (Object ps) =
     (if ''toString'' \<in> fst ` set ps
      then Inl (TypeError ''Cannot convert object to primitive value'')
      else Inr ''[object Object]'')"
| "join rt [] = Inr ''''"
| "join rt (x # xs) =
     (case (if x = Undefined \<or> x = Null then Inr '''' else ToString rt x) of
        Inl e \<Rightarrow> Inl e
      | Inr s \<Rightarrow>
          (if xs = [] then Inr s
           else (case join rt xs of Inl e \<Rightarrow> Inl e | Inr t \<Rightarrow> Inr (s @ '','' @ t))))"

text \<open>
  An array length inside a template literal: a natural number printed as its decimal
  numeral.
\<close>

fun decimal :: "nat \<Rightarrow> string" where
  "decimal n =
     (if n < 10 then [''0123456789'' ! n]
      else decimal (n div 10) @ [''0123456789'' ! (n mod 10)])"

declare decimal.simps [simp del]

section \<open>The component\<close>

text \<open>A tracked field is \<^verbatim>\<open>undefined\<close> until first assigned, and can be set to \<^verbatim>\<open>null\<close>.\<close>

datatype 'a field = Unset | Nul | Val 'a

text \<open>Values of a \<^verbatim>\<open>typeAttributes\<close> object: a string, a number, or \<^verbatim>\<open>{ fieldName: f }\<close>.\<close>

datatype attr = AString string | ANumber int | AFieldName "string option"

text \<open>An entry of \<^verbatim>\<open>columnMapping\<close>; an absent property is \<open>None\<close>.\<close>

record colDef =
  jsonKey :: string
  label :: string
  type :: string
  urlFieldName :: "string option"
  labelFieldName :: "string option"
  typeAttributes :: "(string \<times> attr) list option"

text \<open>
  A column handed to the data table (\<^verbatim>\<open>columnDef\<close> in the source).  Its properties
  \<^verbatim>\<open>label\<close>, \<^verbatim>\<open>type\<close> and \<^verbatim>\<open>typeAttributes\<close> carry the prefix \<open>col_\<close> here, since a mapping
  entry has properties of the same names.
\<close>

record columnDef =
  col_label :: string
  fieldName :: "string option"
  col_type :: string
  sortable :: bool
  col_typeAttributes :: "(string \<times> attr) list option"

definition columnMapping :: "colDef list" where
  "columnMapping =
    [ \<lparr> jsonKey = ''caseIssueName'', label = ''Case Issue'', type = ''url'',
        urlFieldName = Some ''Case_Issue_Link_URL'', labelFieldName = Some ''Case_Issue_Label'',
        typeAttributes = None \<rparr>,
      \<lparr> jsonKey = ''citationForm'', label = ''Citation Form'', type = ''text'',
        urlFieldName = None, labelFieldName = None, typeAttributes = None \<rparr>,
      \<lparr> jsonKey = ''factor'', label = ''Factor'', type = ''number'',
        urlFieldName = None, labelFieldName = None,
        typeAttributes = Some [(''minimumIntegerDigits'', ANumber 1), (''maximumFractionDigits'', ANumber 5)] \<rparr>,
      \<lparr> jsonKey = ''caseIssueId'', label = ''Case Issue Id'', type = ''hidden'',
        urlFieldName = None, labelFieldName = None, typeAttributes = None \<rparr> ]"

text \<open>The tracked fields of the component and its \<^verbatim>\<open>recordId\<close>.\<close>

record 'n component =
  recordId :: "string option"
  autoTableData :: "(string \<times> 'n val) list list field"
  autoColumns :: "columnDef list field"
  autoJsonData :: "string field"
  autoError :: "string field"
  isLoading :: bool
  dynamicTitle :: string

definition initial :: "'n component" where
  "initial = \<lparr> recordId = None, autoTableData = Unset, autoColumns = Unset,
               autoJsonData = Unset, autoError = Unset, isLoading = True,
               dynamicTitle = ''Payee Association'' \<rparr>"

subsection \<open>\<^verbatim>\<open>convertJsonToTable\<close>\<close>

text \<open>Lines 68 and 69: parse, and parse once more when the result is a string.\<close>

definition parseData :: "'n runtime \<Rightarrow> string \<Rightarrow> error + 'n val" where
  "parseData rt jsonString =
     (case JSON_parse rt jsonString of
        Inl e \<Rightarrow> Inl e
      | Inr parsedData \<Rightarrow>
          (case parsedData of String s \<Rightarrow> JSON_parse rt s | _ \<Rightarrow> Inr parsedData))"

text \<open>Lines 71 to 73: \<^verbatim>\<open>Array.isArray\<close>, or the explicit \<^verbatim>\<open>throw\<close>.\<close>

definition checkArray :: "'n val \<Rightarrow> error + 'n val list" where
  "checkArray parsedData =
     (case parsedData of
        Array xs \<Rightarrow> Inr xs
      | _ \<Rightarrow> Inl (Error ''JSON structure is invalid: expected an array of objects.''))"

text \<open>Lines 87 to 89: the \<^verbatim>\<open>forEach\<close> that copies every mapped key into the new row.\<close>

fun copyFields :: "'n val \<Rightarrow> colDef list \<Rightarrow> (string \<times> 'n val) list \<Rightarrow> error + (string \<times> 'n val) list" where
  "copyFields row [] newRow = Inr newRow"
| "copyFields row (c # cs) newRow =
     (case get_prop row (jsonKey c) of
        Inl e \<Rightarrow> Inl e
      | Inr v \<Rightarrow> copyFields row cs (AList.update (jsonKey c) v newRow))"

text \<open>Lines 79 to 92: the callback of \<^verbatim>\<open>parsedData.map\<close>.\<close>

definition mapRow :: "'n runtime \<Rightarrow> 'n val \<Rightarrow> nat \<Rightarrow> error + (string \<times> 'n val) list" where
  "mapRow rt row index =
     (let newRow = [(''id'', Number (Number_of_nat rt (index + 1)))] in
      (case get_prop row ''caseIssueId'' of
         Inl e \<Rightarrow> Inl e
       | Inr x \<Rightarrow>
          (let caseIssueId = or_null rt x in
           (case get_prop row ''caseIssueName'' of
              Inl e \<Rightarrow> Inl e
            | Inr y \<Rightarrow>
               (let caseIssueName = or_null rt y in
                (case (if truthy rt caseIssueId
                       then (case ToString rt caseIssueId of
                               Inl e \<Rightarrow> Inl e
                             | Inr s \<Rightarrow> Inr (String (''/'' @ s)))
                       else Inr Null) of
                   Inl e \<Rightarrow> Inl e
                 | Inr url \<Rightarrow>
                    (let newRow = AList.update ''Case_Issue_Link_URL'' url newRow;
                         newRow = AList.update ''Case_Issue_Label'' caseIssueName newRow
                     in copyFields row columnMapping newRow)))))))"

text \<open>\<^verbatim>\<open>parsedData.map\<close>: the callback on every element with its index, until one throws.\<close>

fun mapRows :: "'n runtime \<Rightarrow> 'n val list \<Rightarrow> nat \<Rightarrow> error + (string \<times> 'n val) list list" where
  "mapRows rt [] index = Inr []"
| "mapRows rt (row # rest) index =
     (case mapRow rt row index of
        Inl e \<Rightarrow> Inl e
      | Inr newRow \<Rightarrow>
          (case mapRows rt rest (index + 1) of
             Inl e \<Rightarrow> Inl e
           | Inr newRows \<Rightarrow> Inr (newRow # newRows)))"

text \<open>\<^verbatim>\<open>{ ...a, ...b }\<close>, where \<open>a\<close> may be \<^verbatim>\<open>undefined\<close>: the properties of \<open>b\<close> are assigned in turn.\<close>

definition spread :: "(string \<times> attr) list option \<Rightarrow> (string \<times> attr) list \<Rightarrow> (string \<times> attr) list" where
  "spread a b = foldl (\<lambda>acc (k, v). AList.update k v acc) (case a of None \<Rightarrow> [] | Some ps \<Rightarrow> ps) b"

text \<open>Lines 97 to 122: the callback that builds a column from a mapping entry.\<close>

definition mapColumn :: "colDef \<Rightarrow> columnDef" where
  "mapColumn c =
     (let columnDef = \<lparr> col_label = label c, fieldName = Some (jsonKey c), col_type = type c,
                        sortable = True, col_typeAttributes = None \<rparr>;
          columnDef =
            (if jsonKey c = ''caseIssueName''
             then columnDef \<lparr> fieldName := urlFieldName c,
                             col_typeAttributes :=
                               Some [(''label'', AFieldName (labelFieldName c)),
                                     (''target'', AString ''_blank''),
                                     (''tooltip'', AString ''Open Case Issue Record'')] \<rparr>
             else columnDef)
      in (case typeAttributes c of
            None \<Rightarrow> columnDef
          | Some ta \<Rightarrow> columnDef \<lparr> col_typeAttributes := Some (spread (col_typeAttributes columnDef) ta) \<rparr>))"

text \<open>The \<^verbatim>\<open>catch\<close> block, lines 141 to 147 (the console message is not modelled).\<close>

definition catch :: "error \<Rightarrow> 'n component \<Rightarrow> 'n component" where
  "catch e this =
     this \<lparr> autoError := Val (message e), autoTableData := Nul, autoColumns := Nul,
            dynamicTitle := ''Payee Association (0)'' \<rparr>"

definition convertJsonToTable :: "'n runtime \<Rightarrow> 'n component \<Rightarrow> string \<Rightarrow> 'n component" where
  "convertJsonToTable rt this jsonString =
     (case parseData rt jsonString of
        Inl e \<Rightarrow> catch e this
      | Inr v \<Rightarrow>
     (case checkArray v of
        Inl e \<Rightarrow> catch e this
      | Inr parsedData \<Rightarrow>
      let recordCount = length parsedData;
          this = this \<lparr> dynamicTitle := ''Payee Association ('' @ decimal recordCount @ '')'' \<rparr>
      in (case mapRows rt parsedData 0 of
            Inl e \<Rightarrow> catch e this
          | Inr dataForTable \<Rightarrow>
              let cols = map mapColumn (filter (\<lambda>col. type col \<noteq> ''hidden'') columnMapping);
                  tableData = dataForTable
              in this \<lparr> autoColumns := Val cols, autoTableData := Val tableData \<rparr>)))"

subsection \<open>\<^verbatim>\<open>wiredPayeeRecord\<close> and \<^verbatim>\<open>processAutoJson\<close>\<close>

text \<open>
  The error a record fetch reports: \<^verbatim>\<open>error.body.message\<close> (\<open>None\<close> when \<^verbatim>\<open>body\<close> or its
  message is absent) and \<^verbatim>\<open>error.message\<close>.
\<close>

record fetchError =
  body_message :: "string option"
  error_message :: "string option"

text \<open>
  The argument of the wire handler: \<^verbatim>\<open>error\<close>, and \<^verbatim>\<open>data\<close> reduced to the value of the
  field \<^verbatim>\<open>Payee_Association_JSON__c\<close>, which is a string or \<^verbatim>\<open>null\<close>.
\<close>

record wireResult =
  error :: "fetchError option"
  data :: "string option option"

definition processAutoJson :: "'n runtime \<Rightarrow> 'n component \<Rightarrow> 'n component" where
  "processAutoJson rt this =
     (case autoJsonData this of
        Val s \<Rightarrow> (if s \<noteq> [] then convertJsonToTable rt this s else this)
      | _ \<Rightarrow> this)"

definition fetchMessage :: "fetchError \<Rightarrow> string" where
  "fetchMessage err =
     (case body_message err of
        Some m \<Rightarrow> (if m \<noteq> [] then m else
          (case error_message err of
             Some m' \<Rightarrow> (if m' \<noteq> [] then m' else ''An unknown error occurred while fetching record data.'')
           | None \<Rightarrow> ''An unknown error occurred while fetching record data.''))
      | None \<Rightarrow>
          (case error_message err of
             Some m' \<Rightarrow> (if m' \<noteq> [] then m' else ''An unknown error occurred while fetching record data.'')
           | None \<Rightarrow> ''An unknown error occurred while fetching record data.''))"

definition wiredPayeeRecord :: "'n runtime \<Rightarrow> 'n component \<Rightarrow> wireResult \<Rightarrow> 'n component" where
  "wiredPayeeRecord rt this r =
     (if recordId this = None \<or> recordId this = Some []
      then this \<lparr> autoError := Val ''Waiting for record ID...'', isLoading := True \<rparr>
      else (case data r of
              Some jsonValue \<Rightarrow>
                (let this = this \<lparr> autoError := Nul,
                                  autoJsonData := (case jsonValue of None \<Rightarrow> Nul | Some s \<Rightarrow> Val s) \<rparr>;
                     this = processAutoJson rt this
                 in this \<lparr> isLoading := False \<rparr>)
            | None \<Rightarrow>
                (case error r of
                   Some err \<Rightarrow>
                     this \<lparr> autoError := Val (fetchMessage err), autoJsonData := Nul,
                            dynamicTitle := ''Payee Association (0)'', isLoading := False \<rparr>
                 | None \<Rightarrow> this)))"

section \<open>Input classes and sample inputs\<close>

text \<open>\<^verbatim>\<open>Array.isArray\<close>\<close>

fun isArray :: "'n val \<Rightarrow> bool" where
  "isArray (Array xs) = True"
| "isArray v = False"

text \<open>
  A \<^emph>\<open>flat\<close> object is an object all of whose property values are primitive (neither an
  array nor an object); this is the shape of record the component expects.
\<close>

fun primitive :: "'n val \<Rightarrow> bool" where
  "primitive (Array xs) = False"
| "primitive (Object ps) = False"
| "primitive v = True"

definition flatObject :: "'n val \<Rightarrow> bool" where
  "flatObject v = (case v of Object ps \<Rightarrow> list_all (\<lambda>(k, x). primitive x) ps | _ \<Rightarrow> False)"

text \<open>
  A \<^emph>\<open>scalar\<close> element is a boolean, a number or a string (\<^verbatim>\<open>null\<close> is not counted: reading
  a property of it throws).
\<close>

fun scalar :: "'n val \<Rightarrow> bool" where
  "scalar (Bool b) = True"
| "scalar (Number n) = True"
| "scalar (String s) = True"
| "scalar v = False"

text \<open>The rows a component currently holds (none while the field is unset or \<^verbatim>\<open>null\<close>).\<close>

definition tableRows :: "'n component \<Rightarrow> (string \<times> 'n val) list list" where
  "tableRows this = (case autoTableData this of Val rows \<Rightarrow> rows | _ \<Rightarrow> [])"

text \<open>The columns a component currently holds.\<close>

definition tableColumns :: "'n component \<Rightarrow> columnDef list" where
  "tableColumns this = (case autoColumns this of Val cols \<Rightarrow> cols | _ \<Rightarrow> [])"

text \<open>
  A concrete runtime for the closed instances below.  A number is represented by its
  canonical decimal text, so that \<open>Number_ToString\<close> is the identity; \<open>JSON_parse\<close> is a
  finite part of the graph of \<^verbatim>\<open>JSON.parse\<close> and rejects every other string.
\<close>

definition example_payload :: string where
  \<open>example_payload =
     ''[{"caseIssueId":"a1","caseIssueName":"Wage Claim","citationForm":"12-CV","factor":0.25}]''\<close>

definition example_records :: "string val list" where
  "example_records =
     [Object [(''caseIssueId'', String ''a1''), (''caseIssueName'', String ''Wage Claim''),
              (''citationForm'', String ''12-CV''), (''factor'', Number ''0.25'')]]"

definition link_payload :: string where
  \<open>link_payload = ''[{"caseIssueId":"a1B"},{"caseIssueId":""},{"caseIssueId":0}]''\<close>

definition link_records :: "string val list" where
  "link_records =
     [Object [(''caseIssueId'', String ''a1B'')], Object [(''caseIssueId'', String [])],
      Object [(''caseIssueId'', Number ''0'')]]"

definition sample_table :: "(string \<times> string val) list" where
  \<open>sample_table =
    [ (''[]'', Array []),
      (''[{}]'', Array [Object []]),
      (''"[{}]"'', String ''[{}]''),
      (example_payload, Array example_records),
      (link_payload, Array link_records),
      (''[{"caseIssueName":""}]'', Array [Object [(''caseIssueName'', String [])]]),
      (''[{"citationForm":"12-CV"}]'', Array [Object [(''citationForm'', String ''12-CV'')]]),
      (''[1]'', Array [Number ''1'']),
      (''{"caseIssueId":"a1"}'', Object [(''caseIssueId'', String ''a1'')]) ]\<close>

definition sample_runtime :: "string runtime" where
  "sample_runtime =
     \<lparr> JSON_parse = (\<lambda>s. case map_of sample_table s of
                             Some v \<Rightarrow> Inr v
                           | None \<Rightarrow> Inl (SyntaxError ''Unexpected token'')),
       Number_falsy = (\<lambda>n. n = ''0'' \<or> n = ''NaN''),
       Number_ToString = (\<lambda>n. n),
       Number_of_nat = decimal \<rparr>"

text \<open>The rows that the two sample arrays are projected to.\<close>

definition example_rows :: "(string \<times> string val) list list" where
  "example_rows =
     [[(''id'', Number ''1''), (''Case_Issue_Link_URL'', String ''/a1''),
       (''Case_Issue_Label'', String ''Wage Claim''), (''caseIssueName'', String ''Wage Claim''),
       (''citationForm'', String ''12-CV''), (''factor'', Number ''0.25''),
       (''caseIssueId'', String ''a1'')]]"

definition link_rows :: "(string \<times> string val) list list" where
  "link_rows =
     [[(''id'', Number ''1''), (''Case_Issue_Link_URL'', String ''/a1B''),
       (''Case_Issue_Label'', Null), (''caseIssueName'', Undefined),
       (''citationForm'', Undefined), (''factor'', Undefined),
       (''caseIssueId'', String ''a1B'')],
      [(''id'', Number ''2''), (''Case_Issue_Link_URL'', Null),
       (''Case_Issue_Label'', Null), (''caseIssueName'', Undefined),
       (''citationForm'', Undefined), (''factor'', Undefined),
       (''caseIssueId'', String [])],
      [(''id'', Number ''3''), (''Case_Issue_Link_URL'', Null),
       (''Case_Issue_Label'', Null), (''caseIssueName'', Undefined),
       (''citationForm'', Undefined), (''factor'', Undefined),
       (''caseIssueId'', Number ''0'')]]"

text \<open>
  A component with a record identifier that has received the example payload from the
  wire, and a later wire result that reports a fetch error.
\<close>

definition loaded :: "string component" where
  "loaded = wiredPayeeRecord sample_runtime (initial \<lparr> recordId := Some ''a0X'' \<rparr>)
              \<lparr> error = None, data = Some (Some example_payload) \<rparr>"

definition fetch_failure :: wireResult where
  "fetch_failure = \<lparr> error = Some \<lparr> body_message = Some ''Record not found'', error_message = None \<rparr>,
                     data = None \<rparr>"

section \<open>Properties of the row and column builders\<close>

lemma mapRows_length: "mapRows rt xs i = Inr rows \<Longrightarrow> length rows = length xs"
  by (induction xs arbitrary: i rows) (auto split: sum.splits)

lemma mapRows_nth:
  "mapRows rt xs i = Inr rows \<Longrightarrow> j < length xs \<Longrightarrow> mapRow rt (xs ! j) (i + j) = Inr (rows ! j)"
proof (induction xs arbitrary: i rows j)
  case Nil
  then show ?case by simp
next
  case (Cons x xs)
  from Cons.prems(1) obtain r rs where r: "mapRow rt x i = Inr r"
    and rs: "mapRows rt xs (Suc i) = Inr rs" and rows: "rows = r # rs"
    by (auto split: sum.splits)
  show ?case
  proof (cases j)
    case 0
    with r rows show ?thesis by simp
  next
    case (Suc m)
    with Cons.prems(2) have "m < length xs" by simp
    from Cons.IH [OF rs this] Suc rows show ?thesis by simp
  qed
qed

lemma copyFields_other:
  "copyFields row cs nr = Inr nr' \<Longrightarrow> k \<notin> jsonKey ` set cs \<Longrightarrow> map_of nr' k = map_of nr k"
  by (induction cs arbitrary: nr) (auto split: sum.splits simp: update_conv')

lemma copyFields_copied:
  "copyFields row cs nr = Inr nr' \<Longrightarrow> k \<in> jsonKey ` set cs \<Longrightarrow>
     \<exists>v. get_prop row k = Inr v \<and> map_of nr' k = Some v"
proof (induction cs arbitrary: nr)
  case Nil
  then show ?case by simp
next
  case (Cons d cs)
  from Cons.prems(1) obtain v where v: "get_prop row (jsonKey d) = Inr v"
    and rest: "copyFields row cs (AList.update (jsonKey d) v nr) = Inr nr'"
    by (auto split: sum.splits)
  show ?case
  proof (cases "k \<in> jsonKey ` set cs")
    case True
    from Cons.IH [OF rest True] show ?thesis .
  next
    case False
    with Cons.prems(2) have kd: "k = jsonKey d" by simp
    from copyFields_other [OF rest False] kd have "map_of nr' k = Some v"
      by (simp add: update_conv')
    with v kd show ?thesis by simp
  qed
qed

lemma columnMapping_keys:
  "jsonKey ` set columnMapping = {''caseIssueName'', ''citationForm'', ''factor'', ''caseIssueId''}"
  by (auto simp: columnMapping_def)

lemma truthy_or_null [simp]: "truthy rt (or_null rt x) = truthy rt x"
  by (simp add: or_null_def)

lemma or_null_truthy: "truthy rt x \<Longrightarrow> or_null rt x = x"
  by (simp add: or_null_def)

lemma mapRow_Inr:
  assumes "mapRow rt row i = Inr nr"
  shows "\<exists>x y. get_prop row ''caseIssueId'' = Inr x \<and> get_prop row ''caseIssueName'' = Inr y \<and>
           map_of nr ''id'' = Some (Number (Number_of_nat rt (i + 1))) \<and>
           map_of nr ''Case_Issue_Label'' = Some (or_null rt y) \<and>
           (truthy rt x \<longrightarrow> (\<exists>t. ToString rt x = Inr t \<and>
              map_of nr ''Case_Issue_Link_URL'' = Some (String (''/'' @ t)))) \<and>
           (\<not> truthy rt x \<longrightarrow> map_of nr ''Case_Issue_Link_URL'' = Some Null)"
proof -
  from assms obtain x y url where x: "get_prop row ''caseIssueId'' = Inr x"
    and y: "get_prop row ''caseIssueName'' = Inr y"
    and url: "(if truthy rt x
            then (case ToString rt (or_null rt x) of
                    Inl e \<Rightarrow> Inl e
                  | Inr s \<Rightarrow> Inr (String (''/'' @ s)))
            else Inr Null) = Inr url"
    and cp: "copyFields row columnMapping
               (AList.update ''Case_Issue_Label'' (or_null rt y)
                 (AList.update ''Case_Issue_Link_URL'' url
                   [(''id'', Number (Number_of_nat rt (i + 1)))])) = Inr nr"
    by (auto simp: mapRow_def Let_def split: sum.splits)
  have other: "k \<notin> jsonKey ` set columnMapping \<Longrightarrow>
      map_of nr k = map_of (AList.update ''Case_Issue_Label'' (or_null rt y)
                 (AList.update ''Case_Issue_Link_URL'' url
                   [(''id'', Number (Number_of_nat rt (i + 1)))])) k" for k
    using copyFields_other [OF cp] .
  have id: "map_of nr ''id'' = Some (Number (Number_of_nat rt (i + 1)))"
    using other [of "''id''"] by (simp add: columnMapping_keys)
  have lbl: "map_of nr ''Case_Issue_Label'' = Some (or_null rt y)"
    using other [of "''Case_Issue_Label''"] by (simp add: columnMapping_keys)
  have lnk: "map_of nr ''Case_Issue_Link_URL'' = Some url"
    using other [of "''Case_Issue_Link_URL''"] by (simp add: columnMapping_keys)
  have t: "truthy rt x \<Longrightarrow> \<exists>t. ToString rt x = Inr t \<and> url = String (''/'' @ t)"
    using url by (auto simp: or_null_truthy split: sum.splits)
  have f: "\<not> truthy rt x \<Longrightarrow> url = Null"
    using url by simp
  from x y id lbl lnk t f show ?thesis by auto
qed

lemma mapRow_copied:
  assumes "mapRow rt row i = Inr nr" and "k \<in> jsonKey ` set columnMapping"
  shows "\<exists>v. get_prop row k = Inr v \<and> map_of nr k = Some v"
proof -
  from assms(1) obtain nr0 where "copyFields row columnMapping nr0 = Inr nr"
    by (auto simp: mapRow_def Let_def split: sum.splits)
  from copyFields_copied [OF this assms(2)] show ?thesis .
qed

lemma copyFields_Object: "\<exists>nr'. copyFields (Object ps) cs nr = Inr nr'"
  by (induction cs arbitrary: nr) auto

lemma ToString_primitive: "primitive v \<Longrightarrow> \<exists>t. ToString rt v = Inr t"
  by (cases v) auto

lemma primitive_or_null: "primitive v \<Longrightarrow> primitive (or_null rt v)"
  by (simp add: or_null_def)

lemma flatObject_prop:
  assumes "flatObject row"
  shows "\<exists>v. get_prop row k = Inr v \<and> primitive v"
proof -
  from assms obtain ps where row: "row = Object ps" and all: "list_all (\<lambda>(k, x). primitive x) ps"
    by (auto simp: flatObject_def split: val.splits)
  show ?thesis
  proof (cases "map_of ps k")
    case None
    with row show ?thesis by simp
  next
    case (Some v)
    then have "(k, v) \<in> set ps" by (rule map_of_SomeD)
    with all have "primitive v" by (auto simp: list_all_iff)
    with Some row show ?thesis by simp
  qed
qed

lemma mapRow_flat:
  assumes "flatObject row"
  shows "\<exists>nr. mapRow rt row i = Inr nr"
proof -
  from assms obtain ps where row: "row = Object ps"
    by (auto simp: flatObject_def split: val.splits)
  from flatObject_prop [OF assms] obtain x where x: "get_prop row ''caseIssueId'' = Inr x" "primitive x"
    by blast
  from flatObject_prop [OF assms] obtain y where y: "get_prop row ''caseIssueName'' = Inr y"
    by blast
  from ToString_primitive [OF primitive_or_null [OF x(2)]]
  obtain t where t: "ToString rt (or_null rt x) = Inr t" by blast
  show ?thesis
    using x(1) y t copyFields_Object [of ps columnMapping]
    by (simp add: mapRow_def Let_def row del: get_prop.simps)
qed

lemma mapRows_flat: "list_all flatObject xs \<Longrightarrow> \<exists>rows. mapRows rt xs i = Inr rows"
proof (induction xs arbitrary: i)
  case Nil
  then show ?case by simp
next
  case (Cons x xs)
  from Cons.prems have fx: "flatObject x" and fxs: "list_all flatObject xs" by simp_all
  from mapRow_flat [OF fx] obtain nr where nr: "mapRow rt x i = Inr nr" by blast
  from Cons.IH [OF fxs] obtain rows where "mapRows rt xs (i + 1) = Inr rows" by blast
  with nr show ?case by simp
qed

lemma convert_success:
  assumes "parseData rt s = Inr (Array A)" and "mapRows rt A 0 = Inr rows"
  shows "convertJsonToTable rt this s =
           this \<lparr> dynamicTitle := ''Payee Association ('' @ decimal (length A) @ '')'',
                  autoColumns := Val (map mapColumn (filter (\<lambda>col. type col \<noteq> ''hidden'') columnMapping)),
                  autoTableData := Val rows \<rparr>"
  using assms by (simp add: convertJsonToTable_def checkArray_def Let_def)

lemma convert_Val:
  assumes "autoTableData (convertJsonToTable rt this s) = Val rows"
  shows "\<exists>A. parseData rt s = Inr (Array A) \<and> mapRows rt A 0 = Inr rows"
  using assms
  by (auto simp: convertJsonToTable_def checkArray_def catch_def Let_def split: sum.splits val.splits)

lemma parseData_direct: "JSON_parse rt s = Inr (Array A) \<Longrightarrow> parseData rt s = Inr (Array A)"
  by (simp add: parseData_def)

lemma decimal_digit: "n < 10 \<Longrightarrow> decimal n = [''0123456789'' ! n]"
  by (simp add: decimal.simps)

lemma sample_parse_example:
  "JSON_parse sample_runtime example_payload = Inr (Array example_records)"
  by (simp add: sample_runtime_def sample_table_def example_payload_def link_payload_def)

lemma sample_one: "Number_of_nat sample_runtime (Suc 0) = ''1''"
  by (simp add: sample_runtime_def decimal_digit)

lemma sample_parse_link:
  "JSON_parse sample_runtime link_payload = Inr (Array link_records)"
  by (simp add: sample_runtime_def sample_table_def example_payload_def link_payload_def)

lemma sample_numbers:
  "Number_of_nat sample_runtime (Suc 0) = ''1''"
  "Number_of_nat sample_runtime (Suc (Suc 0)) = ''2''"
  "Number_of_nat sample_runtime (Suc (Suc (Suc 0))) = ''3''"
  by (simp_all add: sample_runtime_def decimal_digit)

lemma sample_falsy: "Number_falsy sample_runtime ''0''"
  by (simp add: sample_runtime_def)

lemma mapRows_example: "mapRows sample_runtime example_records 0 = Inr example_rows"
  by (simp add: example_records_def example_rows_def mapRow_def or_null_def columnMapping_def
      sample_numbers)

lemma mapRows_link: "mapRows sample_runtime link_records 0 = Inr link_rows"
  by (simp add: link_records_def link_rows_def mapRow_def or_null_def columnMapping_def
      sample_numbers sample_falsy)

lemma convert_example:
  "convertJsonToTable sample_runtime this example_payload =
     this \<lparr> dynamicTitle := ''Payee Association (1)'',
            autoColumns := Val (map mapColumn (filter (\<lambda>col. type col \<noteq> ''hidden'') columnMapping)),
            autoTableData := Val example_rows \<rparr>"
  using convert_success [OF parseData_direct [OF sample_parse_example] mapRows_example, of this]
  by (simp add: example_records_def decimal_digit)

lemma convert_link:
  "convertJsonToTable sample_runtime this link_payload =
     this \<lparr> dynamicTitle := ''Payee Association (3)'',
            autoColumns := Val (map mapColumn (filter (\<lambda>col. type col \<noteq> ''hidden'') columnMapping)),
            autoTableData := Val link_rows \<rparr>"
  using convert_success [OF parseData_direct [OF sample_parse_link] mapRows_link, of this]
  by (simp add: link_records_def decimal_digit)

lemma convert_rows:
  assumes "parseData rt s = Inr (Array A)"
    and "autoTableData (convertJsonToTable rt this s) = Val rows"
  shows "mapRows rt A 0 = Inr rows"
  using convert_Val [OF assms(2)] assms(1) by auto

lemma convert_row:
  assumes "parseData rt s = Inr (Array A)"
    and "autoTableData (convertJsonToTable rt this s) = Val rows"
    and "i < length A"
  shows "mapRow rt (A ! i) i = Inr (rows ! i)"
  using mapRows_nth [OF convert_rows [OF assms(1,2)] assms(3)] by simp

text \<open>
  A call of \<^verbatim>\<open>convertJsonToTable\<close> ends in one of two ways: the \<^verbatim>\<open>catch\<close> block has run,
  or all of title, columns and rows have been assigned.
\<close>

lemma convert_cases:
  "(\<exists>e. convertJsonToTable rt this s =
          this \<lparr> autoError := Val (message e), autoTableData := Nul, autoColumns := Nul,
                 dynamicTitle := ''Payee Association (0)'' \<rparr>) \<or>
   (\<exists>A rows. parseData rt s = Inr (Array A) \<and> mapRows rt A 0 = Inr rows \<and>
      convertJsonToTable rt this s =
        this \<lparr> dynamicTitle := ''Payee Association ('' @ decimal (length A) @ '')'',
               autoColumns := Val (map mapColumn (filter (\<lambda>col. type col \<noteq> ''hidden'') columnMapping)),
               autoTableData := Val rows \<rparr>)"
proof (cases "parseData rt s")
  case (Inl e)
  then show ?thesis by (auto simp: convertJsonToTable_def catch_def)
next
  case (Inr v)
  show ?thesis
  proof (cases "isArray v")
    case False
    with Inr have "convertJsonToTable rt this s =
        catch (Error ''JSON structure is invalid: expected an array of objects.'') this"
      by (cases v) (simp_all add: convertJsonToTable_def checkArray_def)
    then show ?thesis unfolding catch_def by blast
  next
    case True
    then obtain A where v: "v = Array A" by (cases v) auto
    show ?thesis
    proof (cases "mapRows rt A 0")
      case (Inl e)
      with Inr v have "convertJsonToTable rt this s =
          catch e (this \<lparr> dynamicTitle := ''Payee Association ('' @ decimal (length A) @ '')'' \<rparr>)"
        by (simp add: convertJsonToTable_def checkArray_def Let_def)
      then show ?thesis unfolding catch_def by auto
    next
      case (Inr rows)
      with \<open>parseData rt s = Inr v\<close> v convert_success [of rt s A rows this]
      show ?thesis by blast
    qed
  qed
qed

lemma wiredPayeeRecord_error_keeps_table:
  assumes "recordId this = Some rid" and "rid \<noteq> []" and "data r = None" and "error r = Some err"
  shows "autoTableData (wiredPayeeRecord rt this r) = autoTableData this \<and>
         autoColumns (wiredPayeeRecord rt this r) = autoColumns this"
  using assms by (simp add: wiredPayeeRecord_def)

lemma loaded_eq:
  "loaded = \<lparr> recordId = Some ''a0X'', autoTableData = Val example_rows,
              autoColumns = Val (map mapColumn (filter (\<lambda>col. type col \<noteq> ''hidden'') columnMapping)),
              autoJsonData = Val example_payload, autoError = Nul, isLoading = False,
              dynamicTitle = ''Payee Association (1)'' \<rparr>"
proof -
  have "example_payload \<noteq> []"
    by (simp add: example_payload_def)
  then show ?thesis
    by (simp add: loaded_def wiredPayeeRecord_def processAutoJson_def initial_def convert_example)
qed

lemma map_of_foldl_update:
  "map_of (foldl (\<lambda>acc (k, v). AList.update k v acc) a b) = map_of a ++ map_of (rev b)"
proof (induction b arbitrary: a)
  case Nil
  then show ?case by simp
next
  case (Cons p b)
  obtain k v where p: "p = (k, v)" by (cases p)
  have "map_of (foldl (\<lambda>acc (k, v). AList.update k v acc) a (p # b)) =
        map_of (AList.update k v a) ++ map_of (rev b)"
    using Cons.IH [of "AList.update k v a"] by (simp add: p)
  also have "\<dots> = map_of a ++ map_of (rev (p # b))"
    by (auto simp: p update_conv' fun_eq_iff map_add_def split: option.splits)
  finally show ?case .
qed

lemma spread_wins:
  assumes "distinct (map fst b)" and "(k, v) \<in> set b"
  shows "map_of (spread a b) k = Some v"
proof -
  from assms have "map_of (rev b) k = Some v"
    by (intro map_of_is_SomeI) (simp_all add: rev_map [symmetric])
  then show ?thesis
    by (simp add: spread_def map_of_foldl_update)
qed

lemma spread_keeps:
  assumes "k \<notin> fst ` set b"
  shows "map_of (spread a b) k = map_of (case a of None \<Rightarrow> [] | Some ps \<Rightarrow> ps) k"
proof -
  from assms have "map_of (rev b) k = None"
    by (simp add: map_of_eq_None_iff)
  then show ?thesis
    by (simp add: spread_def map_of_foldl_update map_add_def)
qed

text \<open>The row built for an element that is a scalar: nothing is found on it.\<close>

lemma mapRow_scalar:
  assumes "scalar v"
  shows "mapRow rt v i =
     Inr [(''id'', Number (Number_of_nat rt (i + 1))), (''Case_Issue_Link_URL'', Null),
          (''Case_Issue_Label'', Null), (''caseIssueName'', Undefined),
          (''citationForm'', Undefined), (''factor'', Undefined),
          (''caseIssueId'', Undefined)]"
  using assms by (cases v) (simp_all add: mapRow_def or_null_def columnMapping_def)

lemma mapRows_scalar:
  assumes "list_all scalar A"
  shows "\<exists>rows. mapRows rt A i = Inr rows \<and> length rows = length A \<and>
     (\<forall>j < length A. rows ! j =
        [(''id'', Number (Number_of_nat rt (i + j + 1))), (''Case_Issue_Link_URL'', Null),
         (''Case_Issue_Label'', Null), (''caseIssueName'', Undefined),
         (''citationForm'', Undefined), (''factor'', Undefined),
         (''caseIssueId'', Undefined)])"
proof -
  have ex: "\<exists>rows. mapRows rt A i = Inr rows" for i
    using assms
  proof (induction A arbitrary: i)
    case Nil
    then show ?case by simp
  next
    case (Cons x xs)
    from Cons.prems have sx: "scalar x" and sxs: "list_all scalar xs" by simp_all
    from Cons.IH [OF sxs] obtain rows where "mapRows rt xs (i + 1) = Inr rows" by blast
    with mapRow_scalar [OF sx, of rt i] show ?case by simp
  qed
  then obtain rows where rows: "mapRows rt A i = Inr rows" by blast
  have "\<forall>j < length A. rows ! j =
        [(''id'', Number (Number_of_nat rt (i + j + 1))), (''Case_Issue_Link_URL'', Null),
         (''Case_Issue_Label'', Null), (''caseIssueName'', Undefined),
         (''citationForm'', Undefined), (''factor'', Undefined),
         (''caseIssueId'', Undefined)]"
  proof (intro allI impI)
    fix j assume j: "j < length A"
    with assms have "scalar (A ! j)" by (simp add: list_all_length)
    from mapRow_scalar [OF this, of rt "i + j"] mapRows_nth [OF rows j]
    show "rows ! j =
        [(''id'', Number (Number_of_nat rt (i + j + 1))), (''Case_Issue_Link_URL'', Null),
         (''Case_Issue_Label'', Null), (''caseIssueName'', Undefined),
         (''citationForm'', Undefined), (''factor'', Undefined),
         (''caseIssueId'', Undefined)]"
      by simp
  qed
  with rows mapRows_length [OF rows] show ?thesis by blast
qed

section \<open>The claims\<close>

text \<open>
  C1.  A payload that decodes, directly or after one more decoding of a string, to an array
  of \<open>N\<close> flat objects is projected without error: the component holds exactly \<open>N\<close> rows,
  the row at index \<open>i\<close> has \<open>id = i + 1\<close>, and the title is \<open>Payee Association (N)\<close>.  For the
  empty array there are no rows and the title is \<open>Payee Association (0)\<close>.
\<close>

theorem C1_rows_ids_title:
  assumes "JSON_parse rt s = Inr (Array A) \<or>
           JSON_parse rt s = Inr (String s') \<and> JSON_parse rt s' = Inr (Array A)"
    and "list_all flatObject A"
  shows "\<exists>rows cols.
           convertJsonToTable rt this s =
             this \<lparr> dynamicTitle := ''Payee Association ('' @ decimal (length A) @ '')'',
                    autoColumns := Val cols, autoTableData := Val rows \<rparr> \<and>
           length rows = length A \<and>
           (\<forall>i < length A. map_of (rows ! i) ''id'' = Some (Number (Number_of_nat rt (i + 1)))) \<and>
           (A = [] \<longrightarrow> rows = [] \<and>
              dynamicTitle (convertJsonToTable rt this s) = ''Payee Association (0)'')"
proof -
  from assms(1) have p: "parseData rt s = Inr (Array A)"
    by (auto simp: parseData_def)
  from mapRows_flat [OF assms(2)] obtain rows where rows: "mapRows rt A 0 = Inr rows"
    by blast
  note eq = convert_success [OF p rows, of this]
  have len: "length rows = length A"
    using rows by (rule mapRows_length)
  have ids: "\<forall>i < length A. map_of (rows ! i) ''id'' = Some (Number (Number_of_nat rt (i + 1)))"
  proof (intro allI impI)
    fix i assume "i < length A"
    from mapRows_nth [OF rows this] have "mapRow rt (A ! i) i = Inr (rows ! i)" by simp
    from mapRow_Inr [OF this] show "map_of (rows ! i) ''id'' = Some (Number (Number_of_nat rt (i + 1)))"
      by blast
  qed
  have empty: "A = [] \<longrightarrow> rows = [] \<and>
      dynamicTitle (convertJsonToTable rt this s) = ''Payee Association (0)''"
    using len eq by (auto simp: decimal_digit)
  from eq len ids empty show ?thesis by blast
qed

theorem C1_rows_ids_title_witness:
  "JSON_parse sample_runtime example_payload = Inr (Array example_records) \<and>
   list_all flatObject example_records \<and>
   length (tableRows (convertJsonToTable sample_runtime initial example_payload)) = 1 \<and>
   map_of (tableRows (convertJsonToTable sample_runtime initial example_payload) ! 0) ''id''
     = Some (Number ''1'') \<and>
   dynamicTitle (convertJsonToTable sample_runtime initial example_payload)
     = ''Payee Association (1)''"
proof -
  have h1: "JSON_parse sample_runtime example_payload = Inr (Array example_records) \<or>
        JSON_parse sample_runtime example_payload = Inr (String []) \<and>
        JSON_parse sample_runtime [] = Inr (Array example_records)"
    by (simp add: sample_parse_example)
  have h2: "list_all flatObject example_records"
    by (simp add: example_records_def flatObject_def)
  from C1_rows_ids_title [OF h1 h2, of initial] sample_one sample_parse_example h2
  show ?thesis
    by (auto simp: tableRows_def example_records_def decimal_digit)
qed

text \<open>
  C2, at a failing input.  A component that holds the rows and columns of an earlier
  successful projection receives a fetch error from the wire.  The error message is
  stored and the title is reset, but the earlier rows and columns stay in place: the
  error branch of \<^verbatim>\<open>wiredPayeeRecord\<close> does not clear them, whereas the \<^verbatim>\<open>catch\<close> block
  of \<^verbatim>\<open>convertJsonToTable\<close> does.
\<close>

theorem C2_fetch_error_keeps_rows:
  "autoTableData loaded = Val example_rows \<and>
   autoError (wiredPayeeRecord sample_runtime loaded fetch_failure) = Val ''Record not found'' \<and>
   dynamicTitle (wiredPayeeRecord sample_runtime loaded fetch_failure) = ''Payee Association (0)'' \<and>
   autoTableData (wiredPayeeRecord sample_runtime loaded fetch_failure) = Val example_rows \<and>
   autoColumns (wiredPayeeRecord sample_runtime loaded fetch_failure) = autoColumns loaded \<and>
   autoColumns loaded \<noteq> Nul"
  by (simp add: loaded_eq wiredPayeeRecord_def fetch_failure_def fetchMessage_def)

text \<open>
  C3, as the code has it.  The only shape check is \<^verbatim>\<open>Array.isArray\<close> on the decoded value
  (after the second decoding, when the first gives a string).  A value that is not an array
  is rejected: the error is the fixed message, rows and columns are \<^verbatim>\<open>null\<close> and the title
  is the zero-count one.  The elements of an array are not checked: an array whose elements
  are booleans, numbers or strings is projected without error, with the count in the title,
  the columns assigned, and for the element at index \<open>i\<close> a row with \<open>id = i + 1\<close>, both link
  fields \<^verbatim>\<open>null\<close> and every copied field \<^verbatim>\<open>undefined\<close>.
\<close>

theorem C3_array_check:
  assumes "parseData rt s = Inr v"
  shows "(\<not> isArray v \<longrightarrow>
            convertJsonToTable rt this s =
              this \<lparr> autoError := Val ''JSON structure is invalid: expected an array of objects.'',
                     autoTableData := Nul, autoColumns := Nul,
                     dynamicTitle := ''Payee Association (0)'' \<rparr>) \<and>
         (\<forall>A. v = Array A \<and> list_all scalar A \<longrightarrow>
            (\<exists>rows.
               convertJsonToTable rt this s =
                 this \<lparr> dynamicTitle := ''Payee Association ('' @ decimal (length A) @ '')'',
                        autoColumns := Val (map mapColumn (filter (\<lambda>col. type col \<noteq> ''hidden'') columnMapping)),
                        autoTableData := Val rows \<rparr> \<and>
               length rows = length A \<and>
               (\<forall>i < length A. rows ! i =
                  [(''id'', Number (Number_of_nat rt (i + 1))), (''Case_Issue_Link_URL'', Null),
                   (''Case_Issue_Label'', Null), (''caseIssueName'', Undefined),
                   (''citationForm'', Undefined), (''factor'', Undefined),
                   (''caseIssueId'', Undefined)])))"
proof (intro conjI allI impI)
  assume "\<not> isArray v"
  with assms show "convertJsonToTable rt this s =
              this \<lparr> autoError := Val ''JSON structure is invalid: expected an array of objects.'',
                     autoTableData := Nul, autoColumns := Nul,
                     dynamicTitle := ''Payee Association (0)'' \<rparr>"
    by (cases v) (simp_all add: convertJsonToTable_def checkArray_def catch_def)
next
  fix A assume a: "v = Array A \<and> list_all scalar A"
  with assms have p: "parseData rt s = Inr (Array A)" by simp
  from a mapRows_scalar [of A rt 0] obtain rows where rows: "mapRows rt A 0 = Inr rows"
    and len: "length rows = length A"
    and each: "\<forall>i < length A. rows ! i =
                  [(''id'', Number (Number_of_nat rt (i + 1))), (''Case_Issue_Link_URL'', Null),
                   (''Case_Issue_Label'', Null), (''caseIssueName'', Undefined),
                   (''citationForm'', Undefined), (''factor'', Undefined),
                   (''caseIssueId'', Undefined)]"
    by auto
  from convert_success [OF p rows, of this] len each
  show "\<exists>rows.
               convertJsonToTable rt this s =
                 this \<lparr> dynamicTitle := ''Payee Association ('' @ decimal (length A) @ '')'',
                        autoColumns := Val (map mapColumn (filter (\<lambda>col. type col \<noteq> ''hidden'') columnMapping)),
                        autoTableData := Val rows \<rparr> \<and>
               length rows = length A \<and>
               (\<forall>i < length A. rows ! i =
                  [(''id'', Number (Number_of_nat rt (i + 1))), (''Case_Issue_Link_URL'', Null),
                   (''Case_Issue_Label'', Null), (''caseIssueName'', Undefined),
                   (''citationForm'', Undefined), (''factor'', Undefined),
                   (''caseIssueId'', Undefined)])"
    by blast
qed

theorem C3_array_check_witness:
  \<open>parseData sample_runtime ''{"caseIssueId":"a1"}'' = Inr (Object [(''caseIssueId'', String ''a1'')]) \<and>
   \<not> isArray (Object [(''caseIssueId'', String ''a1'')] :: string val) \<and>
   convertJsonToTable sample_runtime initial ''{"caseIssueId":"a1"}'' =
     initial \<lparr> autoError := Val ''JSON structure is invalid: expected an array of objects.'',
               autoTableData := Nul, autoColumns := Nul,
               dynamicTitle := ''Payee Association (0)'' \<rparr> \<and>
   parseData sample_runtime ''[1]'' = Inr (Array [Number ''1'']) \<and>
   list_all scalar [Number ''1'' :: string val] \<and>
   length (tableRows (convertJsonToTable sample_runtime initial ''[1]'')) = 1 \<and>
   map_of (tableRows (convertJsonToTable sample_runtime initial ''[1]'') ! 0) ''factor'' = Some Undefined \<and>
   map_of (tableRows (convertJsonToTable sample_runtime initial ''[1]'') ! 0) ''Case_Issue_Link_URL'' = Some Null\<close>
proof -
  have h1: \<open>parseData sample_runtime ''{"caseIssueId":"a1"}'' =
        Inr (Object [(''caseIssueId'', String ''a1'')])\<close>
    by (simp add: parseData_def sample_runtime_def sample_table_def example_payload_def link_payload_def)
  have h2: "\<not> isArray (Object [(''caseIssueId'', String ''a1'')] :: string val)"
    by simp
  have h3: "parseData sample_runtime ''[1]'' = Inr (Array [Number ''1''])"
    by (simp add: parseData_def sample_runtime_def sample_table_def example_payload_def link_payload_def)
  have h4: "list_all scalar [Number ''1'' :: string val]"
    by simp
  from C3_array_check [OF h1, of initial] h2
  have a: \<open>convertJsonToTable sample_runtime initial ''{"caseIssueId":"a1"}'' =
     initial \<lparr> autoError := Val ''JSON structure is invalid: expected an array of objects.'',
               autoTableData := Nul, autoColumns := Nul,
               dynamicTitle := ''Payee Association (0)'' \<rparr>\<close>
    by blast
  note th = C3_array_check [OF h3, of initial, THEN conjunct2, THEN spec, of "[Number ''1'']"]
  from h4 have "Array [Number ''1''] = Array [Number ''1'' :: string val] \<and>
      list_all scalar [Number ''1'' :: string val]"
    by simp
  from th [THEN mp, OF this]
  obtain rows where r: "convertJsonToTable sample_runtime initial ''[1]'' =
        initial \<lparr> dynamicTitle := ''Payee Association ('' @ decimal (length [Number ''1'' :: string val]) @ '')'',
                  autoColumns := Val (map mapColumn (filter (\<lambda>col. type col \<noteq> ''hidden'') columnMapping)),
                  autoTableData := Val rows \<rparr>"
    and l: "length rows = length [Number ''1'' :: string val]"
    and e: "\<forall>i < length [Number ''1'' :: string val]. rows ! i =
                  [(''id'', Number (Number_of_nat sample_runtime (i + 1))), (''Case_Issue_Link_URL'', Null),
                   (''Case_Issue_Label'', Null), (''caseIssueName'', Undefined),
                   (''citationForm'', Undefined), (''factor'', Undefined),
                   (''caseIssueId'', Undefined)]"
    by blast
  from e have e0: "rows ! 0 =
                  [(''id'', Number (Number_of_nat sample_runtime (0 + 1))), (''Case_Issue_Link_URL'', Null),
                   (''Case_Issue_Label'', Null), (''caseIssueName'', Undefined),
                   (''citationForm'', Undefined), (''factor'', Undefined),
                   (''caseIssueId'', Undefined)]"
    by simp
  from r l e0 have b: "length (tableRows (convertJsonToTable sample_runtime initial ''[1]'')) = 1"
    and c: "map_of (tableRows (convertJsonToTable sample_runtime initial ''[1]'') ! 0) ''factor'' = Some Undefined"
    and d: "map_of (tableRows (convertJsonToTable sample_runtime initial ''[1]'') ! 0) ''Case_Issue_Link_URL'' = Some Null"
    by (simp_all add: tableRows_def)
  from h1 h2 a h3 h4 b c d show ?thesis by blast
qed

text \<open>
  C3, as stated, fails on an array of scalars: the payload \<^verbatim>\<open>[1]\<close> decodes to an array
  whose element is not an object, and the projection succeeds, with no error and one row
  whose copied fields are \<^verbatim>\<open>undefined\<close>.
\<close>

theorem C3_array_of_scalars_counterexample:
  "parseData sample_runtime ''[1]'' = Inr (Array [Number ''1'']) \<and>
   \<not> flatObject (Number ''1'' :: string val) \<and>
   autoError (convertJsonToTable sample_runtime initial ''[1]'') = Unset \<and>
   autoTableData (convertJsonToTable sample_runtime initial ''[1]'') =
     Val [[(''id'', Number ''1''), (''Case_Issue_Link_URL'', Null), (''Case_Issue_Label'', Null),
           (''caseIssueName'', Undefined), (''citationForm'', Undefined),
           (''factor'', Undefined), (''caseIssueId'', Undefined)]]"
proof -
  have p: "parseData sample_runtime ''[1]'' = Inr (Array [Number ''1''])"
    by (simp add: parseData_def sample_runtime_def sample_table_def example_payload_def link_payload_def)
  have r: "mapRows sample_runtime [Number ''1''] 0 =
     Inr [[(''id'', Number ''1''), (''Case_Issue_Link_URL'', Null), (''Case_Issue_Label'', Null),
           (''caseIssueName'', Undefined), (''citationForm'', Undefined),
           (''factor'', Undefined), (''caseIssueId'', Undefined)]]"
    by (simp add: mapRow_def or_null_def columnMapping_def sample_one)
  show ?thesis
    by (simp add: p convert_success [OF p r] flatObject_def initial_def)
qed

text \<open>
  C4.  In a successful projection of an array, the row of every element has
  \<open>Case_Issue_Link_URL\<close> equal to \<open>/\<close> followed by the element's \<open>caseIssueId\<close> (converted to
  a string, and so the identifier itself when it is a string) when that value is truthy,
  and equal to \<^verbatim>\<open>null\<close> when it is falsy or the element is an object without that key.
\<close>

theorem C4_link_url:
  assumes "parseData rt s = Inr (Array A)"
    and "autoTableData (convertJsonToTable rt this s) = Val rows"
    and "i < length A"
  shows "\<exists>v. get_prop (A ! i) ''caseIssueId'' = Inr v \<and>
           (truthy rt v \<longrightarrow> (\<exists>t. ToString rt v = Inr t \<and>
              map_of (rows ! i) ''Case_Issue_Link_URL'' = Some (String (''/'' @ t)))) \<and>
           (\<forall>t. v = String t \<and> t \<noteq> [] \<longrightarrow>
              map_of (rows ! i) ''Case_Issue_Link_URL'' = Some (String (''/'' @ t))) \<and>
           (\<not> truthy rt v \<longrightarrow> map_of (rows ! i) ''Case_Issue_Link_URL'' = Some Null) \<and>
           (\<forall>ps. A ! i = Object ps \<and> ''caseIssueId'' \<notin> fst ` set ps \<longrightarrow>
              map_of (rows ! i) ''Case_Issue_Link_URL'' = Some Null)"
proof -
  from mapRow_Inr [OF convert_row [OF assms]]
  obtain v where v: "get_prop (A ! i) ''caseIssueId'' = Inr v"
    and t: "truthy rt v \<longrightarrow> (\<exists>t. ToString rt v = Inr t \<and>
              map_of (rows ! i) ''Case_Issue_Link_URL'' = Some (String (''/'' @ t)))"
    and f: "\<not> truthy rt v \<longrightarrow> map_of (rows ! i) ''Case_Issue_Link_URL'' = Some Null"
    by blast
  have str: "\<forall>t. v = String t \<and> t \<noteq> [] \<longrightarrow>
      map_of (rows ! i) ''Case_Issue_Link_URL'' = Some (String (''/'' @ t))"
    using t by auto
  have absent: "\<forall>ps. A ! i = Object ps \<and> ''caseIssueId'' \<notin> fst ` set ps \<longrightarrow>
      map_of (rows ! i) ''Case_Issue_Link_URL'' = Some Null"
  proof (intro allI impI)
    fix ps assume a: "A ! i = Object ps \<and> ''caseIssueId'' \<notin> fst ` set ps"
    then have "map_of ps ''caseIssueId'' = None"
      by (simp add: map_of_eq_None_iff)
    with a v have "v = Undefined" by simp
    with f show "map_of (rows ! i) ''Case_Issue_Link_URL'' = Some Null" by simp
  qed
  from v t str f absent show ?thesis by blast
qed

theorem C4_link_url_witness:
  "parseData sample_runtime link_payload = Inr (Array link_records) \<and>
   autoTableData (convertJsonToTable sample_runtime initial link_payload) = Val link_rows \<and>
   0 < length link_records \<and>
   get_prop (link_records ! 0) ''caseIssueId'' = Inr (String ''a1B'') \<and>
   map_of (link_rows ! 0) ''Case_Issue_Link_URL'' = Some (String ''/a1B'') \<and>
   get_prop (link_records ! 2) ''caseIssueId'' = Inr (Number ''0'') \<and>
   map_of (link_rows ! 2) ''Case_Issue_Link_URL'' = Some Null"
proof -
  have h1: "parseData sample_runtime link_payload = Inr (Array link_records)"
    by (rule parseData_direct [OF sample_parse_link])
  have h2: "autoTableData (convertJsonToTable sample_runtime initial link_payload) = Val link_rows"
    by (simp add: convert_link)
  have h3: "0 < length link_records" and h4: "2 < length link_records"
    by (simp_all add: link_records_def)
  have g0: "get_prop (link_records ! 0) ''caseIssueId'' = Inr (String ''a1B'')"
    and g2: "get_prop (link_records ! 2) ''caseIssueId'' = Inr (Number ''0'')"
    by (simp_all add: link_records_def)
  from C4_link_url [OF h1 h2 h3] g0
  have r0: "map_of (link_rows ! 0) ''Case_Issue_Link_URL'' = Some (String ''/a1B'')"
    by auto
  from C4_link_url [OF h1 h2 h4] g2
  have r2: "map_of (link_rows ! 2) ''Case_Issue_Link_URL'' = Some Null"
    by (auto simp: sample_falsy)
  from h1 h2 h3 g0 r0 g2 r2 show ?thesis by blast
qed

text \<open>
  C5, as the code has it.  In a successful projection, \<open>Case_Issue_Label\<close> of a row is the
  element's \<open>caseIssueName\<close> when that value is truthy, and \<^verbatim>\<open>null\<close> when it is absent or
  falsy (the source reads it as \<^verbatim>\<open>row['caseIssueName'] || null\<close>).
\<close>

theorem C5_link_label:
  assumes "parseData rt s = Inr (Array A)"
    and "autoTableData (convertJsonToTable rt this s) = Val rows"
    and "i < length A"
  shows "\<exists>v. get_prop (A ! i) ''caseIssueName'' = Inr v \<and>
           (truthy rt v \<longrightarrow> map_of (rows ! i) ''Case_Issue_Label'' = Some v) \<and>
           (\<not> truthy rt v \<longrightarrow> map_of (rows ! i) ''Case_Issue_Label'' = Some Null)"
proof -
  from mapRow_Inr [OF convert_row [OF assms]]
  obtain v where v: "get_prop (A ! i) ''caseIssueName'' = Inr v"
    and l: "map_of (rows ! i) ''Case_Issue_Label'' = Some (or_null rt v)"
    by blast
  from v l show ?thesis by (auto simp: or_null_def)
qed

theorem C5_link_label_witness:
  "parseData sample_runtime example_payload = Inr (Array example_records) \<and>
   autoTableData (convertJsonToTable sample_runtime initial example_payload) = Val example_rows \<and>
   0 < length example_records \<and>
   get_prop (example_records ! 0) ''caseIssueName'' = Inr (String ''Wage Claim'') \<and>
   map_of (example_rows ! 0) ''Case_Issue_Label'' = Some (String ''Wage Claim'')"
proof -
  have h1: "parseData sample_runtime example_payload = Inr (Array example_records)"
    by (rule parseData_direct [OF sample_parse_example])
  have h2: "autoTableData (convertJsonToTable sample_runtime initial example_payload) = Val example_rows"
    by (simp add: convert_example)
  have h3: "0 < length example_records"
    by (simp add: example_records_def)
  have g: "get_prop (example_records ! 0) ''caseIssueName'' = Inr (String ''Wage Claim'')"
    by (simp add: example_records_def)
  from C5_link_label [OF h1 h2 h3] g
  have "map_of (example_rows ! 0) ''Case_Issue_Label'' = Some (String ''Wage Claim'')"
    by auto
  with h1 h2 h3 g show ?thesis by blast
qed

text \<open>
  C5, as stated, fails when the label field is falsy: for the payload
  \<^verbatim>\<open>[{"caseIssueName":""}]\<close> the source record has the empty string as its \<open>caseIssueName\<close>,
  and the projected row has \<open>Case_Issue_Label\<close> equal to \<^verbatim>\<open>null\<close>, not to the empty string.
\<close>

theorem C5_empty_label_counterexample:
  \<open>parseData sample_runtime ''[{"caseIssueName":""}]'' =
     Inr (Array [Object [(''caseIssueName'', String [])]]) \<and>
   get_prop (Object [(''caseIssueName'', String [])] :: string val) ''caseIssueName'' = Inr (String []) \<and>
   autoError (convertJsonToTable sample_runtime initial ''[{"caseIssueName":""}]'') = Unset \<and>
   map_of (tableRows (convertJsonToTable sample_runtime initial ''[{"caseIssueName":""}]'') ! 0)
     ''Case_Issue_Label'' = Some Null \<and>
   map_of (tableRows (convertJsonToTable sample_runtime initial ''[{"caseIssueName":""}]'') ! 0)
     ''caseIssueName'' = Some (String [])\<close>
proof -
  have p: \<open>parseData sample_runtime ''[{"caseIssueName":""}]'' =
     Inr (Array [Object [(''caseIssueName'', String [])]])\<close>
    by (simp add: parseData_def sample_runtime_def sample_table_def example_payload_def link_payload_def)
  have r: "mapRows sample_runtime [Object [(''caseIssueName'', String [])]] 0 =
     Inr [[(''id'', Number ''1''), (''Case_Issue_Link_URL'', Null),
           (''Case_Issue_Label'', Null), (''caseIssueName'', String []),
           (''citationForm'', Undefined), (''factor'', Undefined),
           (''caseIssueId'', Undefined)]]"
    by (simp add: mapRow_def or_null_def columnMapping_def sample_numbers)
  show ?thesis
    by (simp add: p convert_success [OF p r] tableRows_def initial_def)
qed

text \<open>
  C6.  When \<open>s1\<close> is a JSON encoding of an array and \<open>s2\<close> a JSON encoding of the string
  \<open>s1\<close>, projecting the double-encoded payload \<open>s2\<close> leaves the component in the same state
  (title, columns, rows and all other fields) as projecting \<open>s1\<close>.
\<close>

theorem C6_double_encoding:
  assumes "JSON_parse rt s1 = Inr (Array A)" and "JSON_parse rt s2 = Inr (String s1)"
  shows "convertJsonToTable rt this s2 = convertJsonToTable rt this s1"
proof -
  have "parseData rt s2 = parseData rt s1"
    using assms by (simp add: parseData_def)
  then show ?thesis by (simp add: convertJsonToTable_def)
qed

theorem C6_double_encoding_witness:
  \<open>JSON_parse sample_runtime ''[{}]'' = Inr (Array [Object []]) \<and>
   JSON_parse sample_runtime ''"[{}]"'' = Inr (String ''[{}]'') \<and>
   convertJsonToTable sample_runtime initial ''"[{}]"'' =
     convertJsonToTable sample_runtime initial ''[{}]''\<close>
proof -
  have h1: "JSON_parse sample_runtime ''[{}]'' = Inr (Array [Object []])"
    by (simp add: sample_runtime_def sample_table_def example_payload_def link_payload_def)
  have h2: \<open>JSON_parse sample_runtime ''"[{}]"'' = Inr (String ''[{}]'')\<close>
    by (simp add: sample_runtime_def sample_table_def example_payload_def link_payload_def)
  from C6_double_encoding [OF h1 h2, of initial] h1 h2 show ?thesis by simp
qed

text \<open>
  C7.  In an array of flat objects, an object that lacks the \<open>jsonKey\<close> of a mapping entry
  does not make the projection fail: reading the missing key gives \<^verbatim>\<open>undefined\<close>, rows are
  produced, no error is recorded, and the field of that row under the missing key is
  \<^verbatim>\<open>undefined\<close>.
\<close>

theorem C7_missing_key_undefined:
  assumes "parseData rt s = Inr (Array A)"
    and "list_all flatObject A"
    and "i < length A"
    and "A ! i = Object ps"
    and "c \<in> set columnMapping"
    and "jsonKey c \<notin> fst ` set ps"
  shows "\<exists>rows. autoTableData (convertJsonToTable rt this s) = Val rows \<and>
           autoError (convertJsonToTable rt this s) = autoError this \<and>
           length rows = length A \<and>
           get_prop (A ! i) (jsonKey c) = Inr Undefined \<and>
           map_of (rows ! i) (jsonKey c) = Some Undefined"
proof -
  from mapRows_flat [OF assms(2)] obtain rows where rows: "mapRows rt A 0 = Inr rows"
    by blast
  note eq = convert_success [OF assms(1) rows, of this]
  from mapRows_nth [OF rows assms(3)] have row: "mapRow rt (A ! i) i = Inr (rows ! i)"
    by simp
  from assms(5) have "jsonKey c \<in> jsonKey ` set columnMapping" by simp
  from mapRow_copied [OF row this] obtain v
    where v: "get_prop (A ! i) (jsonKey c) = Inr v" "map_of (rows ! i) (jsonKey c) = Some v"
    by blast
  from assms(6) have "map_of ps (jsonKey c) = None"
    by (simp add: map_of_eq_None_iff)
  with v(1) assms(4) have "v = Undefined" by simp
  with v eq mapRows_length [OF rows] show ?thesis by simp
qed

theorem C7_missing_key_undefined_witness:
  \<open>parseData sample_runtime ''[{"citationForm":"12-CV"}]'' =
     Inr (Array [Object [(''citationForm'', String ''12-CV'')]]) \<and>
   list_all flatObject [Object [(''citationForm'', String ''12-CV'')] :: string val] \<and>
   columnMapping ! 2 \<in> set columnMapping \<and>
   jsonKey (columnMapping ! 2) = ''factor'' \<and>
   ''factor'' \<notin> fst ` set [(''citationForm'', String ''12-CV'' :: string val)] \<and>
   autoError (convertJsonToTable sample_runtime initial ''[{"citationForm":"12-CV"}]'') = Unset \<and>
   map_of (tableRows (convertJsonToTable sample_runtime initial ''[{"citationForm":"12-CV"}]'') ! 0)
     ''factor'' = Some Undefined\<close>
proof -
  have h1: \<open>parseData sample_runtime ''[{"citationForm":"12-CV"}]'' =
     Inr (Array [Object [(''citationForm'', String ''12-CV'')]])\<close>
    by (simp add: parseData_def sample_runtime_def sample_table_def example_payload_def link_payload_def)
  have h2: "list_all flatObject [Object [(''citationForm'', String ''12-CV'')] :: string val]"
    by (simp add: flatObject_def)
  have h3: "0 < length [Object [(''citationForm'', String ''12-CV'')] :: string val]"
    by simp
  have h4: "[Object [(''citationForm'', String ''12-CV'')] :: string val] ! 0 =
      Object [(''citationForm'', String ''12-CV'')]"
    by simp
  have h5: "columnMapping ! 2 \<in> set columnMapping"
    by (simp add: columnMapping_def)
  have k: "jsonKey (columnMapping ! 2) = ''factor''"
    by (simp add: columnMapping_def)
  have h6: "jsonKey (columnMapping ! 2) \<notin> fst ` set [(''citationForm'', String ''12-CV'' :: string val)]"
    by (simp add: k)
  from C7_missing_key_undefined [OF h1 h2 h3 h4 h5 h6, of initial] h1 h2 h5 k h6
  show ?thesis
    by (auto simp: tableRows_def initial_def)
qed

text \<open>
  C8.  In a successful projection no column is produced for a mapping entry of type
  \<open>hidden\<close>: no column has that type, nor the entry's key as its field name, nor its
  label.  Every row nevertheless holds, under the entry's \<open>jsonKey\<close>, the value read from
  its source record.
\<close>

theorem C8_hidden_entries:
  assumes "parseData rt s = Inr (Array A)"
    and "autoTableData (convertJsonToTable rt this s) = Val rows"
    and "c \<in> set columnMapping"
    and "type c = ''hidden''"
  shows "\<exists>cols. autoColumns (convertJsonToTable rt this s) = Val cols \<and>
           (\<forall>d \<in> set cols. col_type d \<noteq> ''hidden'' \<and> fieldName d \<noteq> Some (jsonKey c) \<and>
               col_label d \<noteq> label c) \<and>
           length rows = length A \<and>
           (\<forall>i < length A. \<exists>v. get_prop (A ! i) (jsonKey c) = Inr v \<and>
               map_of (rows ! i) (jsonKey c) = Some v)"
proof -
  note rows = convert_rows [OF assms(1,2)]
  note eq = convert_success [OF assms(1) rows, of this]
  from assms(3,4) have c: "jsonKey c = ''caseIssueId''" "label c = ''Case Issue Id''"
    by (auto simp: columnMapping_def)
  have cols: "\<forall>d \<in> set (map mapColumn (filter (\<lambda>col. type col \<noteq> ''hidden'') columnMapping)).
      col_type d \<noteq> ''hidden'' \<and> fieldName d \<noteq> Some (jsonKey c) \<and> col_label d \<noteq> label c"
    by (simp add: c columnMapping_def mapColumn_def spread_def)
  have copied: "\<forall>i < length A. \<exists>v. get_prop (A ! i) (jsonKey c) = Inr v \<and>
      map_of (rows ! i) (jsonKey c) = Some v"
  proof (intro allI impI)
    fix i assume "i < length A"
    from mapRows_nth [OF rows this] have "mapRow rt (A ! i) i = Inr (rows ! i)" by simp
    moreover from assms(3) have "jsonKey c \<in> jsonKey ` set columnMapping" by simp
    ultimately show "\<exists>v. get_prop (A ! i) (jsonKey c) = Inr v \<and> map_of (rows ! i) (jsonKey c) = Some v"
      by (rule mapRow_copied)
  qed
  from eq cols mapRows_length [OF rows] copied show ?thesis by simp
qed

theorem C8_hidden_entries_witness:
  "parseData sample_runtime example_payload = Inr (Array example_records) \<and>
   autoTableData (convertJsonToTable sample_runtime initial example_payload) = Val example_rows \<and>
   columnMapping ! 3 \<in> set columnMapping \<and>
   type (columnMapping ! 3) = ''hidden'' \<and>
   jsonKey (columnMapping ! 3) = ''caseIssueId'' \<and>
   list_all (\<lambda>d. col_type d \<noteq> ''hidden'' \<and> fieldName d \<noteq> Some ''caseIssueId'')
     (tableColumns (convertJsonToTable sample_runtime initial example_payload)) \<and>
   get_prop (example_records ! 0) ''caseIssueId'' = Inr (String ''a1'') \<and>
   map_of (example_rows ! 0) ''caseIssueId'' = Some (String ''a1'')"
proof -
  have h1: "parseData sample_runtime example_payload = Inr (Array example_records)"
    by (rule parseData_direct [OF sample_parse_example])
  have h2: "autoTableData (convertJsonToTable sample_runtime initial example_payload) = Val example_rows"
    by (simp add: convert_example)
  have h3: "columnMapping ! 3 \<in> set columnMapping"
    by (simp add: columnMapping_def)
  have h4: "type (columnMapping ! 3) = ''hidden''"
    by (simp add: columnMapping_def)
  have k: "jsonKey (columnMapping ! 3) = ''caseIssueId''"
    by (simp add: columnMapping_def)
  have g: "get_prop (example_records ! 0) ''caseIssueId'' = Inr (String ''a1'')"
    by (simp add: example_records_def)
  have l: "0 < length example_records"
    by (simp add: example_records_def)
  from C8_hidden_entries [OF h1 h2 h3 h4] obtain cols
    where c1: "autoColumns (convertJsonToTable sample_runtime initial example_payload) = Val cols"
      and c2: "\<forall>d \<in> set cols. col_type d \<noteq> ''hidden'' \<and> fieldName d \<noteq> Some ''caseIssueId''"
      and c3: "\<forall>i < length example_records. \<exists>v. get_prop (example_records ! i) ''caseIssueId'' = Inr v \<and>
               map_of (example_rows ! i) ''caseIssueId'' = Some v"
    unfolding k by blast
  from c3 l g have "map_of (example_rows ! 0) ''caseIssueId'' = Some (String ''a1'')"
    by auto
  moreover from c1 c2
  have "list_all (\<lambda>d. col_type d \<noteq> ''hidden'' \<and> fieldName d \<noteq> Some ''caseIssueId'')
     (tableColumns (convertJsonToTable sample_runtime initial example_payload))"
    by (simp add: tableColumns_def list_all_iff)
  ultimately show ?thesis using h1 h2 h3 h4 k g by blast
qed

text \<open>
  C9.  In a successful projection the columns are the images of the non-hidden mapping
  entries, in mapping order; for the mapping of the source these are the three columns
  written out below.  A column takes label and type from its entry and is sortable.  Its
  field name is the entry's \<open>jsonKey\<close>, except for the link entry (\<open>caseIssueName\<close>), whose
  column has the entry's \<open>urlFieldName\<close> as field name and the attributes \<open>label\<close> (a
  reference to \<open>labelFieldName\<close>), \<open>target = _blank\<close> and \<open>tooltip\<close>.  The \<open>typeAttributes\<close> of
  an entry are merged into those of its column, and on a key that both have the entry's
  value is the one kept.
\<close>

theorem C9_columns:
  assumes "autoTableData (convertJsonToTable rt this s) = Val rows"
  shows "\<exists>cols. autoColumns (convertJsonToTable rt this s) = Val cols \<and>
     length cols = length (filter (\<lambda>col. type col \<noteq> ''hidden'') columnMapping) \<and>
     (\<forall>j < length cols. cols ! j = mapColumn (filter (\<lambda>col. type col \<noteq> ''hidden'') columnMapping ! j)) \<and>
     cols =
       [\<lparr> col_label = ''Case Issue'', fieldName = Some ''Case_Issue_Link_URL'', col_type = ''url'',
          sortable = True,
          col_typeAttributes = Some [(''label'', AFieldName (Some ''Case_Issue_Label'')),
                                     (''target'', AString ''_blank''),
                                     (''tooltip'', AString ''Open Case Issue Record'')] \<rparr>,
        \<lparr> col_label = ''Citation Form'', fieldName = Some ''citationForm'', col_type = ''text'',
          sortable = True, col_typeAttributes = None \<rparr>,
        \<lparr> col_label = ''Factor'', fieldName = Some ''factor'', col_type = ''number'',
          sortable = True,
          col_typeAttributes = Some [(''minimumIntegerDigits'', ANumber 1),
                                     (''maximumFractionDigits'', ANumber 5)] \<rparr>] \<and>
     (\<forall>c. col_label (mapColumn c) = label c \<and> col_type (mapColumn c) = type c \<and>
          sortable (mapColumn c)) \<and>
     (\<forall>c. jsonKey c \<noteq> ''caseIssueName'' \<longrightarrow>
          fieldName (mapColumn c) = Some (jsonKey c) \<and>
          (typeAttributes c = None \<longrightarrow> col_typeAttributes (mapColumn c) = None)) \<and>
     (\<forall>c. jsonKey c = ''caseIssueName'' \<longrightarrow>
          fieldName (mapColumn c) = urlFieldName c \<and>
          (\<exists>atts. col_typeAttributes (mapColumn c) = Some atts \<and>
             (\<forall>k. k \<notin> fst ` set (case typeAttributes c of None \<Rightarrow> [] | Some ta \<Rightarrow> ta) \<longrightarrow>
                map_of atts k =
                  map_of [(''label'', AFieldName (labelFieldName c)),
                          (''target'', AString ''_blank''),
                          (''tooltip'', AString ''Open Case Issue Record'')] k))) \<and>
     (\<forall>c ta k v. typeAttributes c = Some ta \<and> distinct (map fst ta) \<and> (k, v) \<in> set ta \<longrightarrow>
          (\<exists>atts. col_typeAttributes (mapColumn c) = Some atts \<and> map_of atts k = Some v))"
proof -
  from convert_Val [OF assms] obtain A where p: "parseData rt s = Inr (Array A)"
    and r: "mapRows rt A 0 = Inr rows"
    by blast
  let ?visible = "filter (\<lambda>col. type col \<noteq> ''hidden'') columnMapping"
  have cols: "autoColumns (convertJsonToTable rt this s) = Val (map mapColumn ?visible)"
    by (simp add: convert_success [OF p r])
  have len: "length (map mapColumn ?visible) = length ?visible"
    by simp
  have nth: "\<forall>j < length (map mapColumn ?visible). map mapColumn ?visible ! j = mapColumn (?visible ! j)"
    by simp
  have concrete: "map mapColumn ?visible =
       [\<lparr> col_label = ''Case Issue'', fieldName = Some ''Case_Issue_Link_URL'', col_type = ''url'',
          sortable = True,
          col_typeAttributes = Some [(''label'', AFieldName (Some ''Case_Issue_Label'')),
                                     (''target'', AString ''_blank''),
                                     (''tooltip'', AString ''Open Case Issue Record'')] \<rparr>,
        \<lparr> col_label = ''Citation Form'', fieldName = Some ''citationForm'', col_type = ''text'',
          sortable = True, col_typeAttributes = None \<rparr>,
        \<lparr> col_label = ''Factor'', fieldName = Some ''factor'', col_type = ''number'',
          sortable = True,
          col_typeAttributes = Some [(''minimumIntegerDigits'', ANumber 1),
                                     (''maximumFractionDigits'', ANumber 5)] \<rparr>]"
    by (simp add: columnMapping_def mapColumn_def spread_def)
  have basic: "\<forall>c. col_label (mapColumn c) = label c \<and> col_type (mapColumn c) = type c \<and>
          sortable (mapColumn c)"
    by (simp add: mapColumn_def Let_def split: option.splits)
  have plain: "\<forall>c. jsonKey c \<noteq> ''caseIssueName'' \<longrightarrow>
          fieldName (mapColumn c) = Some (jsonKey c) \<and>
          (typeAttributes c = None \<longrightarrow> col_typeAttributes (mapColumn c) = None)"
    by (simp add: mapColumn_def Let_def split: option.splits)
  have link: "\<forall>c. jsonKey c = ''caseIssueName'' \<longrightarrow>
          fieldName (mapColumn c) = urlFieldName c \<and>
          (\<exists>atts. col_typeAttributes (mapColumn c) = Some atts \<and>
             (\<forall>k. k \<notin> fst ` set (case typeAttributes c of None \<Rightarrow> [] | Some ta \<Rightarrow> ta) \<longrightarrow>
                map_of atts k =
                  map_of [(''label'', AFieldName (labelFieldName c)),
                          (''target'', AString ''_blank''),
                          (''tooltip'', AString ''Open Case Issue Record'')] k))"
  proof (intro allI impI)
    fix c :: colDef
    assume k: "jsonKey c = ''caseIssueName''"
    show "fieldName (mapColumn c) = urlFieldName c \<and>
          (\<exists>atts. col_typeAttributes (mapColumn c) = Some atts \<and>
             (\<forall>k. k \<notin> fst ` set (case typeAttributes c of None \<Rightarrow> [] | Some ta \<Rightarrow> ta) \<longrightarrow>
                map_of atts k =
                  map_of [(''label'', AFieldName (labelFieldName c)),
                          (''target'', AString ''_blank''),
                          (''tooltip'', AString ''Open Case Issue Record'')] k))"
    proof (cases "typeAttributes c")
      case None
      with k show ?thesis by (simp add: mapColumn_def)
    next
      case (Some ta)
      with k have "fieldName (mapColumn c) = urlFieldName c"
        and "col_typeAttributes (mapColumn c) =
           Some (spread (Some [(''label'', AFieldName (labelFieldName c)),
                          (''target'', AString ''_blank''),
                          (''tooltip'', AString ''Open Case Issue Record'')]) ta)"
        by (simp_all add: mapColumn_def)
      with Some show ?thesis
        by (simp add: spread_keeps del: map_of.simps)
    qed
  qed
  have merged: "\<forall>c ta k v. typeAttributes c = Some ta \<and> distinct (map fst ta) \<and> (k, v) \<in> set ta \<longrightarrow>
          (\<exists>atts. col_typeAttributes (mapColumn c) = Some atts \<and> map_of atts k = Some v)"
    by (auto simp: mapColumn_def Let_def spread_wins)
  from cols len nth concrete basic plain link merged show ?thesis
    by (intro exI [of _ "map mapColumn ?visible"] conjI)
qed

theorem C9_columns_witness:
  "autoTableData (convertJsonToTable sample_runtime initial example_payload) = Val example_rows \<and>
   length (tableColumns (convertJsonToTable sample_runtime initial example_payload)) = 3 \<and>
   map fieldName (tableColumns (convertJsonToTable sample_runtime initial example_payload)) =
     [Some ''Case_Issue_Link_URL'', Some ''citationForm'', Some ''factor'']"
proof -
  have h: "autoTableData (convertJsonToTable sample_runtime initial example_payload) = Val example_rows"
    by (simp add: convert_example)
  from C9_columns [OF h] obtain cols
    where "autoColumns (convertJsonToTable sample_runtime initial example_payload) = Val cols"
      and "cols =
       [\<lparr> col_label = ''Case Issue'', fieldName = Some ''Case_Issue_Link_URL'', col_type = ''url'',
          sortable = True,
          col_typeAttributes = Some [(''label'', AFieldName (Some ''Case_Issue_Label'')),
                                     (''target'', AString ''_blank''),
                                     (''tooltip'', AString ''Open Case Issue Record'')] \<rparr>,
        \<lparr> col_label = ''Citation Form'', fieldName = Some ''citationForm'', col_type = ''text'',
          sortable = True, col_typeAttributes = None \<rparr>,
        \<lparr> col_label = ''Factor'', fieldName = Some ''factor'', col_type = ''number'',
          sortable = True,
          col_typeAttributes = Some [(''minimumIntegerDigits'', ANumber 1),
                                     (''maximumFractionDigits'', ANumber 5)] \<rparr>]"
    by blast
  with h show ?thesis by (simp add: tableColumns_def)
qed

text \<open>
  C10.  The rows, the columns and the title that \<^verbatim>\<open>convertJsonToTable\<close> leaves behind are
  the same whatever state the component was in before the call: they depend on the input
  string (and the fixed \<open>columnMapping\<close>) only.
\<close>

theorem C10_deterministic:
  "autoTableData (convertJsonToTable rt this s) = autoTableData (convertJsonToTable rt this' s) \<and>
   autoColumns (convertJsonToTable rt this s) = autoColumns (convertJsonToTable rt this' s) \<and>
   dynamicTitle (convertJsonToTable rt this s) = dynamicTitle (convertJsonToTable rt this' s)"
  by (simp add: convertJsonToTable_def catch_def Let_def split: sum.splits)

end
